theory Spec2Isabelle
  imports Complex_Main "HOL-Library.Multiset"
begin

section \<open>Conventions\<close>

text \<open>
  The development embeds the build-time pipeline and the browser-side loader of
  vite-plugin-astro-prerender. JavaScript strings are modelled by \<^typ>\<open>string\<close>; a
  \<^typ>\<open>char\<close> stands for one UTF-16 code unit below 256, so the model covers the strings of
  the Latin-1 range. Thrown \<open>Error\<close> objects are values of \<open>js_error\<close>, one constructor per
  message template of the source; a computation that may throw returns
  \<open>js_error + 'a\<close> with \<open>Inl\<close> for the throw.
\<close>

datatype js_error =
    HttpError nat string          \<comment> \<open>\<open>`HTTP ${response.status}: ${response.statusText}`\<close>\<close>
  | NotFound string               \<comment> \<open>\<open>`Not found: ${url}`\<close>\<close>
  | RetriesExhausted string nat   \<comment> \<open>\<open>`Failed to fetch ${url} after ${retries} attempts`\<close>\<close>
  | ManifestError string          \<comment> \<open>\<open>`Failed to load manifest: ${response.statusText}`\<close>\<close>
  | CssLoadError string           \<comment> \<open>the three \<open>Failed to load ... CSS\<close> rejections\<close>
  | ExternalError string          \<comment> \<open>anything thrown by a collaborator (fetch, fs, compiler)\<close>

section \<open>Content cache (src/utils/cache.ts, cache.mjs)\<close>

text \<open>
  \<open>CacheManager\<close> wraps a key-value table from component path to content hash
  (\<open>Map<string, string>\<close> in cache.mjs, the key table of \<open>FlatCache\<close> in cache.ts).
  A lookup of a missing key yields \<open>undefined\<close>, here \<open>None\<close>.
\<close>

type_synonym cache = "string \<rightharpoonup> string"

text \<open>\<open>isCached(componentPath, hash) { return this.cache.get(componentPath) === hash; }\<close>\<close>

definition isCached :: "cache \<Rightarrow> string \<Rightarrow> string \<Rightarrow> bool" where
  "isCached c componentPath hash = (c componentPath = Some hash)"

text \<open>\<open>set(componentPath, hash) { this.cache.set(componentPath, hash); }\<close>\<close>

definition cache_set :: "cache \<Rightarrow> string \<Rightarrow> string \<Rightarrow> cache" where
  "cache_set c componentPath hash = c(componentPath \<mapsto> hash)"

text \<open>\<open>delete(componentPath) { this.cache.delete(componentPath); }\<close>\<close>

definition cache_delete :: "cache \<Rightarrow> string \<Rightarrow> cache" where
  "cache_delete c componentPath = c(componentPath := None)"

text \<open>\<open>clear() { this.cache.clear(); }\<close>\<close>

definition cache_clear :: "cache \<Rightarrow> cache" where
  "cache_clear c = Map.empty"

section \<open>Client loader: statistics (src/utils/LazyLoader.ts)\<close>

text \<open>
  JavaScript numbers that count events are naturals; times are reals (milliseconds).
  A JavaScript division never throws: a zero divisor yields \<open>NaN\<close> (for \<open>0 / 0\<close>) or an
  infinity. \<open>js_div\<close> writes these outcomes out, since HOL's own \<open>x / 0\<close> is \<open>0\<close>.
\<close>

datatype js_number = Finite real | PosInfinity | NegInfinity | NaN

definition js_div :: "real \<Rightarrow> real \<Rightarrow> js_number" where
  "js_div a b =
     (if b = 0 then (if a = 0 then NaN else if 0 < a then PosInfinity else NegInfinity)
      else Finite (a / b))"

text \<open>The private \<open>stats\<close> object of \<open>LazyHTMLLoader\<close>.\<close>

record stats =
  totalLoads :: nat
  cacheHits :: nat
  cacheMisses :: nat
  errors :: nat
  totalLoadTime :: real
  totalBytes :: nat

text \<open>The \<open>LoadStats\<close> interface returned by \<open>getStats\<close>.\<close>

record load_stats =
  ls_totalLoads :: nat
  ls_cacheHits :: nat
  ls_cacheMisses :: nat
  ls_errors :: nat
  ls_averageLoadTime :: js_number
  ls_totalBytes :: nat

definition getStats :: "stats \<Rightarrow> load_stats" where
  "getStats s =
     \<lparr> ls_totalLoads = totalLoads s,
       ls_cacheHits = cacheHits s,
       ls_cacheMisses = cacheMisses s,
       ls_errors = errors s,
       ls_averageLoadTime =
         (if totalLoads s > 0 then js_div (totalLoadTime s) (real (totalLoads s))
          else Finite 0),
       ls_totalBytes = totalBytes s \<rparr>"

section \<open>Client loader: page environment\<close>

text \<open>
  A \<open>Response\<close> as the loader reads it. \<open>response.ok\<close> is the Fetch API's flag for a
  status in the range 200 to 299.
\<close>

record response =
  status :: nat
  statusText :: string
  body :: string

definition ok :: "response \<Rightarrow> bool" where
  "ok r = (200 \<le> status r \<and> status r \<le> 299)"

datatype fetch_outcome = Resolves response | Rejects js_error

text \<open>
  What the page answers: \<open>net n url\<close> is the outcome of the \<open>n\<close>-th call of \<open>fetch\<close>
  (counted from zero) when it asks for \<open>url\<close>; \<open>link_loads href\<close> tells whether a
  stylesheet link fires \<open>onload\<close> or \<open>onerror\<close>; \<open>perf_now n\<close> is the \<open>n\<close>-th reading of
  \<open>performance.now()\<close> and \<open>date_now\<close> the wall clock; \<open>parse_manifest\<close> is
  \<open>response.json()\<close> on a body. Every request the page starts is taken to settle, and the
  configured callbacks are taken to return.
\<close>

record page_env =
  net :: "nat \<Rightarrow> string \<Rightarrow> fetch_outcome"
  link_loads :: "string \<Rightarrow> bool"
  perf_now :: "nat \<Rightarrow> real"
  date_now :: "nat \<Rightarrow> real"
  parse_manifest :: "string \<Rightarrow> js_error + (string \<rightharpoonup> string)"

text \<open>The argument of the \<open>onLoad\<close> callback and the entries of \<open>detailedStats\<close>.\<close>

type_synonym asset = "string \<times> nat \<times> real \<times> string"

record load_report =
  lr_duration :: real
  lr_bytes :: nat
  lr_fromCache :: bool
  lr_secondaryAssets :: "asset list option"

record load_info = load_report +
  li_timestamp :: real

datatype callback =
    OnLoad string load_report
  | OnError string js_error
  | OnCSSLoad string real

text \<open>
  What the loader has done to the page so far: the URLs handed to \<open>fetch\<close>, the delays
  it has waited with \<open>setTimeout\<close>, the \<open>(rel, href)\<close> of the link elements appended to
  \<open>document.head\<close>, the number of clock readings, and the callbacks invoked.
\<close>

record page =
  fetches :: "string list"
  timers :: "nat list"
  head_links :: "(string \<times> string) list"
  clock_reads :: nat
  calls :: "callback list"

definition performance_now :: "page_env \<Rightarrow> page \<Rightarrow> real \<times> page" where
  "performance_now env pg = (perf_now env (clock_reads pg), pg\<lparr>clock_reads := Suc (clock_reads pg)\<rparr>)"

definition fetch :: "page_env \<Rightarrow> string \<Rightarrow> page \<Rightarrow> (js_error + response) \<times> page" where
  "fetch env url pg =
     ((case net env (length (fetches pg)) url of Resolves r \<Rightarrow> Inr r | Rejects e \<Rightarrow> Inl e),
      pg\<lparr>fetches := fetches pg @ [url]\<rparr>)"

text \<open>\<open>new Blob([html]).size\<close>: the UTF-8 length; a code unit from 128 on takes two bytes.\<close>

definition blob_size :: "string \<Rightarrow> nat" where
  "blob_size html = length html + length (filter (\<lambda>c. 128 \<le> (of_char c :: nat)) html)"

section \<open>Client loader: state\<close>

record loader_config =
  baseUrl :: string
  cssModules :: bool
  manifestUrl :: string
  baseCssUrl :: string
  legacyCssUrl :: string
  preloadCSS :: bool
  cacheHTML :: bool
  enableRetry :: bool
  maxRetries :: nat
  retryDelay :: nat
  debug :: bool

record loader =
  config :: loader_config
  htmlCache :: "string \<rightharpoonup> string"
  cssCache :: "string set"
  manifest :: "(string \<rightharpoonup> string) option"
  manifestLoaded :: bool
  baseCssLoaded :: bool
  legacyCssLoaded :: bool
  stats :: stats
  detailedStats :: "string \<rightharpoonup> load_info"

section \<open>Client loader: fetchWithRetry\<close>

text \<open>
  One pass through the body of the \<open>for\<close> loop. The \<open>try\<close> block returns the response,
  throws, or runs to its end (\<open>retrying...\<close>); the \<open>catch\<close> block rethrows on the last
  attempt and otherwise only logs, so that control reaches the wait below it.
\<close>

datatype try_result = Returned response | Thrown js_error | FellThrough

definition try_block :: "string \<Rightarrow> nat \<Rightarrow> nat \<Rightarrow> fetch_outcome \<Rightarrow> try_result" where
  "try_block url retries attempt outcome =
     (case outcome of
        Rejects e \<Rightarrow> Thrown e
      | Resolves r \<Rightarrow>
          if ok r then Returned r
          else if attempt = retries then Thrown (HttpError (status r) (statusText r))
          else if status r = 404 then Thrown (NotFound url)
          else FellThrough)"

definition catch_block :: "nat \<Rightarrow> nat \<Rightarrow> try_result \<Rightarrow> try_result" where
  "catch_block retries attempt t =
     (case t of
        Thrown e \<Rightarrow> if attempt = retries then Thrown e else FellThrough
      | Returned r \<Rightarrow> Returned r
      | FellThrough \<Rightarrow> FellThrough)"

function fetchWithRetry_from ::
  "page_env \<Rightarrow> nat \<Rightarrow> string \<Rightarrow> nat \<Rightarrow> nat \<Rightarrow> page \<Rightarrow> (js_error + response) \<times> page" where
  "fetchWithRetry_from env delay url retries attempt pg =
     (if attempt \<le> retries then
        (let pg1 = pg\<lparr>fetches := fetches pg @ [url]\<rparr> in
         case catch_block retries attempt
                (try_block url retries attempt (net env (length (fetches pg)) url)) of
           Returned r \<Rightarrow> (Inr r, pg1)
         | Thrown e \<Rightarrow> (Inl e, pg1)
         | FellThrough \<Rightarrow>
             fetchWithRetry_from env delay url retries (Suc attempt)
               (if attempt < retries then pg1\<lparr>timers := timers pg1 @ [delay * attempt]\<rparr> else pg1))
      else (Inl (RetriesExhausted url retries), pg))"
  by pat_completeness auto
termination
  by (relation "measure (\<lambda>(env, delay, url, retries, attempt, pg). Suc retries - attempt)") auto

text \<open>\<open>fetchWithRetry(url, retries = this.config.maxRetries)\<close>, the loop starting at attempt 1.\<close>

definition fetchWithRetry ::
  "page_env \<Rightarrow> loader_config \<Rightarrow> string \<Rightarrow> nat \<Rightarrow> page \<Rightarrow> (js_error + response) \<times> page" where
  "fetchWithRetry env cfg url retries pg = fetchWithRetry_from env (retryDelay cfg) url retries 1 pg"

text \<open>\<open>this.config.enableRetry ? this.fetchWithRetry(url) : fetch(url)\<close>\<close>

definition fetch_configured ::
  "page_env \<Rightarrow> loader_config \<Rightarrow> string \<Rightarrow> page \<Rightarrow> (js_error + response) \<times> page" where
  "fetch_configured env cfg url pg =
     (if enableRetry cfg then fetchWithRetry env cfg url (maxRetries cfg) pg else fetch env url pg)"

section \<open>Client loader: stylesheets\<close>

text \<open>
  The three stylesheet loaders create a \<open>link\<close> element, append an optional preload
  hint and then the link itself to \<open>document.head\<close>, and settle when the link fires
  \<open>onload\<close> or \<open>onerror\<close>.
\<close>

definition append_stylesheet :: "loader_config \<Rightarrow> string \<Rightarrow> page \<Rightarrow> page" where
  "append_stylesheet cfg href pg =
     pg\<lparr>head_links := head_links pg
          @ (if preloadCSS cfg then [(''preload'', href)] else [])
          @ [(''stylesheet'', href)]\<rparr>"

definition manifest_of_response ::
  "page_env \<Rightarrow> js_error + response \<Rightarrow> js_error + (string \<rightharpoonup> string)" where
  "manifest_of_response env res =
     (case res of
        Inl e \<Rightarrow> Inl e
      | Inr r \<Rightarrow> if \<not> ok r then Inl (ManifestError (statusText r)) else parse_manifest env (body r))"

definition loadManifest :: "page_env \<Rightarrow> loader \<Rightarrow> page \<Rightarrow> loader \<times> page" where
  "loadManifest env ld pg =
     (if manifestLoaded ld then (ld, pg)
      else
        (let (startTime, pg1) = performance_now env pg;
             (res, pg2) = fetch_configured env (config ld) (manifestUrl (config ld)) pg1
         in case manifest_of_response env res of
              Inr m \<Rightarrow>
                (let (t, pg3) = performance_now env pg2
                 in (ld\<lparr>manifest := Some m, manifestLoaded := True\<rparr>,
                     pg3\<lparr>calls := calls pg3 @ [OnCSSLoad (manifestUrl (config ld)) (t - startTime)]\<rparr>))
            | Inl e \<Rightarrow>
                (ld\<lparr>config := (config ld)\<lparr>cssModules := False\<rparr>, manifestLoaded := True\<rparr>, pg2)))"

definition loadBaseCSS :: "page_env \<Rightarrow> loader \<Rightarrow> page \<Rightarrow> js_error option \<times> loader \<times> page" where
  "loadBaseCSS env ld pg =
     (if baseCssLoaded ld then (None, ld, pg)
      else
        (let (ld1, pg1) = loadManifest env ld pg
         in if manifest ld1 = None then (None, ld1, pg1)
            else
              (let (startTime, pg2) = performance_now env pg1;
                   pg3 = append_stylesheet (config ld1) (baseCssUrl (config ld1)) pg2
               in if link_loads env (baseCssUrl (config ld1)) then
                    (let (t, pg4) = performance_now env pg3
                     in (None, ld1\<lparr>baseCssLoaded := True\<rparr>,
                         pg4\<lparr>calls := calls pg4 @ [OnCSSLoad (baseCssUrl (config ld1)) (t - startTime)]\<rparr>))
                  else (Some (CssLoadError ''Failed to load base CSS''), ld1, pg3))))"

definition loadComponentCSS ::
  "page_env \<Rightarrow> string \<Rightarrow> loader \<Rightarrow> page \<Rightarrow> js_error option \<times> loader \<times> page" where
  "loadComponentCSS env componentName ld pg =
     (case (if cssModules (config ld) then manifest ld else None) of
        None \<Rightarrow> (None, ld, pg)
      | Some components \<Rightarrow>
          (case components componentName of
             None \<Rightarrow> (None, ld, pg)
           | Some cssFile \<Rightarrow>
               if cssFile = [] then (None, ld, pg)
               else if cssFile \<in> cssCache ld then (None, ld, pg)
               else
                 (let (startTime, pg1) = performance_now env pg;
                      cssUrl = baseUrl (config ld) @ ''/'' @ cssFile;
                      pg2 = append_stylesheet (config ld) cssUrl pg1
                  in if link_loads env cssUrl then
                       (let (t, pg3) = performance_now env pg2
                        in (None, ld\<lparr>cssCache := insert cssFile (cssCache ld)\<rparr>,
                            pg3\<lparr>calls := calls pg3 @ [OnCSSLoad cssFile (t - startTime)]\<rparr>))
                     else (Some (CssLoadError (''Failed to load CSS: '' @ cssFile)), ld, pg2))))"

definition loadLegacyCSS :: "page_env \<Rightarrow> loader \<Rightarrow> page \<Rightarrow> js_error option \<times> loader \<times> page" where
  "loadLegacyCSS env ld pg =
     (if legacyCssLoaded ld then (None, ld, pg)
      else
        (let (startTime, pg1) = performance_now env pg;
             pg2 = append_stylesheet (config ld) (legacyCssUrl (config ld)) pg1
         in if link_loads env (legacyCssUrl (config ld)) then
              (let (t, pg3) = performance_now env pg2
               in (None, ld\<lparr>legacyCssLoaded := True\<rparr>,
                   pg3\<lparr>calls := calls pg3 @ [OnCSSLoad (legacyCssUrl (config ld)) (t - startTime)]\<rparr>))
            else (Some (CssLoadError ''Failed to load lazy components CSS''), ld, pg2)))"

text \<open>
  The \<open>Load CSS\<close> step of \<open>load\<close>: every rejection is caught and only warned about, so the
  step yields no error.
\<close>

definition load_css :: "page_env \<Rightarrow> string \<Rightarrow> loader \<Rightarrow> page \<Rightarrow> loader \<times> page" where
  "load_css env componentName ld pg =
     (if cssModules (config ld) then
        (let (r1, ld1, pg1) = loadBaseCSS env ld pg;
             (r2, ld2, pg2) = loadComponentCSS env componentName ld1 pg1
         in (ld2, pg2))
      else
        (let (r, ld1, pg1) = loadLegacyCSS env ld pg in (ld1, pg1)))"

section \<open>Client loader: load\<close>

text \<open>The \<open>catch\<close> block of \<open>load\<close>: count the error, report it, rethrow.\<close>

definition load_failed ::
  "string \<Rightarrow> js_error \<Rightarrow> loader \<Rightarrow> page \<Rightarrow> (js_error + string) \<times> loader \<times> page" where
  "load_failed componentName err ld pg =
     (Inl err,
      ld\<lparr>stats := (stats ld)\<lparr>errors := Suc (errors (stats ld))\<rparr>\<rparr>,
      pg\<lparr>calls := calls pg @ [OnError componentName err]\<rparr>)"

text \<open>The branch taken when the in-memory HTML cache answers.\<close>

definition load_from_cache ::
  "page_env \<Rightarrow> string \<Rightarrow> string \<Rightarrow> real \<Rightarrow> loader \<Rightarrow> page \<Rightarrow> (js_error + string) \<times> loader \<times> page" where
  "load_from_cache env componentName html startTime ld pg =
     (let ld1 = ld\<lparr>stats := (stats ld)\<lparr>cacheHits := Suc (cacheHits (stats ld))\<rparr>\<rparr>;
          bytes = blob_size html;
          (t, pg1) = performance_now env pg;
          duration = t - startTime;
          ld2 = ld1\<lparr>stats := (stats ld1)\<lparr>totalLoads := Suc (totalLoads (stats ld1)),
                                          totalLoadTime := totalLoadTime (stats ld1) + duration\<rparr>\<rparr>;
          loadInfo = \<lparr>lr_duration = duration, lr_bytes = bytes, lr_fromCache = True,
                      lr_secondaryAssets = None, li_timestamp = date_now env (clock_reads pg1)\<rparr>;
          ld3 = ld2\<lparr>detailedStats := (detailedStats ld2)(componentName \<mapsto> loadInfo)\<rparr>;
          pg2 = pg1\<lparr>calls := calls pg1 @ [OnLoad componentName
                    \<lparr>lr_duration = duration, lr_bytes = bytes, lr_fromCache = True,
                     lr_secondaryAssets = None\<rparr>]\<rparr>
      in (Inr html, ld3, pg2))"

text \<open>
  The branch that goes to the network. The \<open>PerformanceObserver\<close> registered after the
  fetch delivers its entries in later callbacks, after \<open>load\<close> has returned; the
  \<open>secondaryAssets\<close> array is therefore empty in the value built here.
\<close>

definition load_from_network ::
  "page_env \<Rightarrow> string \<Rightarrow> real \<Rightarrow> loader \<Rightarrow> page \<Rightarrow> (js_error + string) \<times> loader \<times> page" where
  "load_from_network env componentName startTime ld pg =
     (let ld1 = ld\<lparr>stats := (stats ld)\<lparr>cacheMisses := Suc (cacheMisses (stats ld))\<rparr>\<rparr>;
          (ld2, pg1) = load_css env componentName ld1 pg;
          url = baseUrl (config ld2) @ ''/'' @ componentName @ ''.html'';
          (res, pg2) = fetch_configured env (config ld2) url pg1
      in case res of
           Inl e \<Rightarrow> load_failed componentName e ld2 pg2
         | Inr r \<Rightarrow>
             if \<not> ok r then load_failed componentName (HttpError (status r) (statusText r)) ld2 pg2
             else
               (let html = body r;
                    bytes = blob_size html;
                    ld3 = (if cacheHTML (config ld2)
                           then ld2\<lparr>htmlCache := (htmlCache ld2)(componentName \<mapsto> html)\<rparr> else ld2);
                    (t, pg3) = performance_now env pg2;
                    duration = t - startTime;
                    ld4 = ld3\<lparr>stats := (stats ld3)\<lparr>totalLoads := Suc (totalLoads (stats ld3)),
                              totalLoadTime := totalLoadTime (stats ld3) + duration,
                              totalBytes := totalBytes (stats ld3) + bytes\<rparr>\<rparr>;
                    loadInfo = \<lparr>lr_duration = duration, lr_bytes = bytes, lr_fromCache = False,
                                lr_secondaryAssets = Some [], li_timestamp = date_now env (clock_reads pg3)\<rparr>;
                    ld5 = ld4\<lparr>detailedStats := (detailedStats ld4)(componentName \<mapsto> loadInfo)\<rparr>;
                    pg4 = pg3\<lparr>calls := calls pg3 @ [OnLoad componentName
                              \<lparr>lr_duration = duration, lr_bytes = bytes, lr_fromCache = False,
                               lr_secondaryAssets = Some []\<rparr>]\<rparr>
                in (Inr html, ld5, pg4)))"

text \<open>
  \<open>load(componentName)\<close>. The cache is consulted first:
  \<open>if (this.config.cacheHTML && this.htmlCache.has(componentName))\<close>.
\<close>

definition load ::
  "page_env \<Rightarrow> string \<Rightarrow> loader \<Rightarrow> page \<Rightarrow> (js_error + string) \<times> loader \<times> page" where
  "load env componentName ld pg =
     (let (startTime, pg0) = performance_now env pg
      in case (if cacheHTML (config ld) then htmlCache ld componentName else None) of
           Some html \<Rightarrow> load_from_cache env componentName html startTime ld pg0
         | None \<Rightarrow> load_from_network env componentName startTime ld pg0)"

text \<open>The requests a page has seen: the URLs fetched and the link elements appended.\<close>

definition network_requests :: "page \<Rightarrow> string list" where
  "network_requests pg = fetches pg @ map snd (head_links pg)"

section \<open>Client loader: a fresh loader and sample pages\<close>

text \<open>The constructor's defaults (\<open>new LazyHTMLLoader()\<close>) and the initial fields.\<close>

definition default_config :: loader_config where
  "default_config =
     \<lparr> baseUrl = ''/prerendered'', cssModules = False,
       manifestUrl = ''/prerendered/manifest.json'', baseCssUrl = ''/prerendered/base.css'',
       legacyCssUrl = ''/prerendered/lazy-components.css'', preloadCSS = False,
       cacheHTML = True, enableRetry = True, maxRetries = 3, retryDelay = 1000,
       debug = False \<rparr>"

definition new_loader :: "loader_config \<Rightarrow> loader" where
  "new_loader cfg =
     \<lparr> config = cfg, htmlCache = Map.empty, cssCache = {}, manifest = None,
       manifestLoaded = False, baseCssLoaded = False, legacyCssLoaded = False,
       stats = \<lparr> totalLoads = 0, cacheHits = 0, cacheMisses = 0, errors = 0,
                 totalLoadTime = 0, totalBytes = 0 \<rparr>,
       detailedStats = Map.empty \<rparr>"

definition fresh_page :: page where
  "fresh_page = \<lparr> fetches = [], timers = [], head_links = [], clock_reads = 0, calls = [] \<rparr>"

text \<open>
  A server that answers the first request with 404 and every later one with 200; the
  clock advances by five milliseconds per reading.
\<close>

definition not_found_response :: response where
  "not_found_response = \<lparr> status = 404, statusText = ''Not Found'', body = [] \<rparr>"

definition footer_response :: response where
  "footer_response = \<lparr> status = 200, statusText = ''OK'', body = ''<p>2024</p>'' \<rparr>"

definition not_found_once :: page_env where
  "not_found_once =
     \<lparr> net = (\<lambda>n url. if n = 0 then Resolves not_found_response else Resolves footer_response),
       link_loads = (\<lambda>href. True),
       perf_now = (\<lambda>n. 5 * real n),
       date_now = (\<lambda>n. 1000 + 5 * real n),
       parse_manifest = (\<lambda>body. Inl (ExternalError ''SyntaxError'')) \<rparr>"

text \<open>A loader that has already loaded \<open>Footer\<close> once.\<close>

definition footer_cached :: loader where
  "footer_cached =
     (new_loader default_config)
       \<lparr> htmlCache := [''Footer'' \<mapsto> ''<p>2024</p>''],
         legacyCssLoaded := True,
         stats := \<lparr> totalLoads = 1, cacheHits = 0, cacheMisses = 1, errors = 0,
                    totalLoadTime = 10, totalBytes = 11 \<rparr> \<rparr>"

section \<open>Stylesheet generator (src/utils/css-generator.ts)\<close>

text \<open>\<open>Array.prototype.join\<close> on strings.\<close>

fun join :: "string \<Rightarrow> string list \<Rightarrow> string" where
  "join sep [] = []"
| "join sep [x] = x"
| "join sep (x # y # ys) = x @ sep @ join sep (y # ys)"

abbreviation NL :: char where
  "NL \<equiv> CHR 0x0A"

text \<open>
  The fields of \<open>CSSGenerator\<close>. A JavaScript \<open>Set\<close> iterates in insertion order, so
  \<open>classes\<close> is the list of its members in that order, without repetition; \<open>set_add\<close> is
  \<open>Set.prototype.add\<close>.
\<close>

record css_generator =
  tailwindConfigPath :: string
  classes :: "string list"
  componentStyles :: "string list"
  generateTailwind :: bool

definition set_add :: "'a list \<Rightarrow> 'a \<Rightarrow> 'a list" where
  "set_add s x = (if x \<in> set s then s else s @ [x])"

definition new_generator :: "string \<Rightarrow> bool \<Rightarrow> css_generator" where
  "new_generator path tailwind =
     \<lparr> tailwindConfigPath = path, classes = [], componentStyles = [], generateTailwind = tailwind \<rparr>"

text \<open>\<open>addClasses(classes) { classes.forEach((cls) => this.classes.add(cls)); }\<close>\<close>

definition addClasses :: "css_generator \<Rightarrow> string list \<Rightarrow> css_generator" where
  "addClasses g cs = g\<lparr>classes := foldl set_add (classes g) cs\<rparr>"

text \<open>\<open>addStyles(styles) { this.componentStyles.push(...styles); }\<close>\<close>

definition addStyles :: "css_generator \<Rightarrow> string list \<Rightarrow> css_generator" where
  "addStyles g styles = g\<lparr>componentStyles := componentStyles g @ styles\<rparr>"

text \<open>\<open>clear() { this.classes.clear(); this.componentStyles = []; }\<close>\<close>

definition clear :: "css_generator \<Rightarrow> css_generator" where
  "clear g = g\<lparr>classes := [], componentStyles := []\<rparr>"

text \<open>
  The collaborators of \<open>generate\<close>, none of them part of the repository:
  \<open>import_dependencies\<close> is the dynamic import of postcss, tailwindcss and autoprefixer
  (\<open>Some e\<close> when it throws), \<open>import_config\<close> loads the default export of the Tailwind
  configuration, \<open>postcss_process cfg raw safelist css\<close> is
  \<open>postcss([tailwindcss({...cfg, content: [{raw}], safelist}), autoprefixer]).process(css)\<close>
  and yields \<open>result.css\<close>, and \<open>write_file path content\<close> tells whether
  \<open>writeFileWithDir\<close> throws. Written files are recorded in a map from path to content.
\<close>

record 'cfg css_env =
  import_dependencies :: "js_error option"
  import_config :: "string \<Rightarrow> js_error + 'cfg"
  postcss_process :: "'cfg \<Rightarrow> string \<Rightarrow> string list \<Rightarrow> string \<Rightarrow> js_error + string"
  write_file :: "string \<Rightarrow> string \<Rightarrow> js_error option"

type_synonym files = "string \<rightharpoonup> string"

text \<open>The logger calls of \<open>generate\<close>, one constructor per message.\<close>

datatype css_log =
    StateInfo nat nat              \<comment> \<open>info: \<open>CSS Generator state: n classes, m component styles\<close>\<close>
  | NothingToGenerate              \<comment> \<open>warn: \<open>No classes or styles to generate CSS for\<close>\<close>
  | Generating nat nat             \<comment> \<open>info: \<open>Generating CSS for n classes and m component styles...\<close>\<close>
  | GeneratedStylesOnly string     \<comment> \<open>success: \<open>CSS generated (component styles only): path\<close>\<close>
  | TailwindDisabled nat           \<comment> \<open>warn: \<open>Found n Tailwind classes but generateTailwindCSS is disabled\<close>\<close>
  | Generated string               \<comment> \<open>success: \<open>CSS generated: path\<close>\<close>
  | GenerateFailed js_error        \<comment> \<open>error: \<open>Failed to generate CSS: error\<close>\<close>

text \<open>\<open>await writeFileWithDir(outputPath, content)\<close>\<close>

definition writeFileWithDir ::
  "(string \<Rightarrow> string \<Rightarrow> js_error option) \<Rightarrow> string \<Rightarrow> string \<Rightarrow> files \<Rightarrow> js_error option \<times> files" where
  "writeFileWithDir write filePath content fs =
     (case write filePath content of
        Some e \<Rightarrow> (Some e, fs)
      | None \<Rightarrow> (None, fs(filePath \<mapsto> content)))"

text \<open>The \<open>raw\<close> content handed to Tailwind: one \<open>div\<close> per class, in the order of the array.\<close>

definition content_raw :: "string list \<Rightarrow> string" where
  "content_raw classArray =
     join [NL] (map (\<lambda>cls. ''<div class='' @ [CHR 0x22] @ cls @ [CHR 0x22] @ ''></div>'') classArray)"

definition tailwind_directives :: string where
  "tailwind_directives =
     [NL] @ ''@tailwind base;'' @ [NL] @ ''@tailwind components;'' @ [NL]
       @ ''@tailwind utilities;'' @ [NL]"

definition styles_only_css :: "string list \<Rightarrow> string" where
  "styles_only_css styles = ''/* Component Styles */'' @ [NL] @ join [NL, NL] styles"

text \<open>
  The body of the \<open>try\<close> block of \<open>generate\<close>: the outcome (\<open>Some e\<close> for a throw), the
  files and the log lines written inside the block.
\<close>

definition generate_body ::
  "'cfg css_env \<Rightarrow> css_generator \<Rightarrow> string \<Rightarrow> files \<Rightarrow> js_error option \<times> files \<times> css_log list" where
  "generate_body env g outputPath fs =
     (let classArray = classes g in
      if \<not> generateTailwind g \<and> length (componentStyles g) > 0 then
        (case writeFileWithDir (write_file env) outputPath (styles_only_css (componentStyles g)) fs of
           (Some e, fs1) \<Rightarrow> (Some e, fs1, [])
         | (None, fs1) \<Rightarrow> (None, fs1, [GeneratedStylesOnly outputPath]))
      else if \<not> generateTailwind g \<and> length classArray > 0 then
        (if length (componentStyles g) > 0 then
           (case writeFileWithDir (write_file env) outputPath (styles_only_css (componentStyles g)) fs of
              (Some e, fs1) \<Rightarrow> (Some e, fs1, [TailwindDisabled (length classArray)])
            | (None, fs1) \<Rightarrow>
                (None, fs1, [TailwindDisabled (length classArray), GeneratedStylesOnly outputPath]))
         else (None, fs, [TailwindDisabled (length classArray)]))
      else
        (case import_dependencies env of
           Some e \<Rightarrow> (Some e, fs, [])
         | None \<Rightarrow>
             (case import_config env (tailwindConfigPath g) of
                Inl e \<Rightarrow> (Some e, fs, [])
              | Inr tailwindConfig \<Rightarrow>
                  (let cssContent = tailwind_directives
                         @ (if length (componentStyles g) > 0
                            then [NL] @ ''/* Component Styles */'' @ [NL]
                                 @ join [NL, NL] (componentStyles g)
                            else [])
                   in case postcss_process env tailwindConfig (content_raw classArray) classArray
                             cssContent of
                        Inl e \<Rightarrow> (Some e, fs, [])
                      | Inr css \<Rightarrow>
                          (case writeFileWithDir (write_file env) outputPath css fs of
                             (Some e, fs1) \<Rightarrow> (Some e, fs1, [])
                           | (None, fs1) \<Rightarrow> (None, fs1, [Generated outputPath]))))))"

text \<open>
  \<open>generate(outputPath)\<close>: nothing is attempted when both accumulators are empty;
  otherwise the \<open>try\<close> block runs and the \<open>catch\<close> block logs and rethrows.
\<close>

definition generate ::
  "'cfg css_env \<Rightarrow> css_generator \<Rightarrow> string \<Rightarrow> files \<Rightarrow> js_error option \<times> files \<times> css_log list" where
  "generate env g outputPath fs =
     (let classArray = classes g;
          state = StateInfo (length classArray) (length (componentStyles g))
      in if length classArray = 0 \<and> length (componentStyles g) = 0 then
           (None, fs, [state, NothingToGenerate])
         else
           (case generate_body env g outputPath fs of
              (Some e, fs1, logs) \<Rightarrow>
                (Some e, fs1,
                 [state, Generating (length classArray) (length (componentStyles g))] @ logs
                   @ [GenerateFailed e])
            | (None, fs1, logs) \<Rightarrow>
                (None, fs1,
                 [state, Generating (length classArray) (length (componentStyles g))] @ logs)))"

text \<open>
  Modelled from the spec: the utility CSS compiler capability, an external collaborator
  (tailwindcss run through postcss), which is not part of the repository. The spec
  gives it as \<open>compile(config, allowedClassSet) -> CSS text\<close>, where \<open>config\<close> carries the
  project's base rule definitions and \<open>allowedClassSet\<close> restricts emitted rules: what it
  emits is determined by the configuration, the set of allowed classes and the
  stylesheet text it processes. \<open>utility_compiler compile\<close> is such a compiler at the place
  where \<open>generate\<close> calls it, with the \<open>raw\<close> content and the safelist built from the class
  array.
\<close>

definition utility_compiler ::
  "('cfg \<Rightarrow> string set \<Rightarrow> string \<Rightarrow> js_error + string)
     \<Rightarrow> 'cfg \<Rightarrow> string \<Rightarrow> string list \<Rightarrow> string \<Rightarrow> js_error + string" where
  "utility_compiler compile cfg raw safelist css = compile cfg (set safelist) css"

text \<open>
  A compiler of this kind, used to run \<open>generate\<close> on concrete inputs: it emits the rules
  of its own fixed rule table for the allowed classes, followed by the stylesheet text
  it is given.
\<close>

definition rule_of :: "string \<Rightarrow> string" where
  "rule_of cls = ''.'' @ cls @ ''{}''"

definition rule_table_compile :: "unit \<Rightarrow> string set \<Rightarrow> string \<Rightarrow> js_error + string" where
  "rule_table_compile cfg allowed css =
     Inr (concat (map rule_of (filter (\<lambda>cls. cls \<in> allowed) [''flex'', ''p-4''])) @ css)"

definition rule_table_env :: "unit css_env" where
  "rule_table_env =
     \<lparr> import_dependencies = None,
       import_config = (\<lambda>path. Inr ()),
       postcss_process = utility_compiler rule_table_compile,
       write_file = (\<lambda>path content. None) \<rparr>"

definition no_files :: files where
  "no_files = Map.empty"

text \<open>The generator the plugin creates in \<open>configResolved\<close>, before any class is added.\<close>

definition plugin_generator :: css_generator where
  "plugin_generator = new_generator ''/app/tailwind.config.mjs'' True"

section \<open>Structural renderer (src/utils/parser-renderer.ts)\<close>

text \<open>
  The tree that \<open>parse\<close> of \<open>@astrojs/compiler\<close> returns, as far as the renderer reads
  it. An attribute has a \<open>kind\<close>, a \<open>name\<close> and a \<open>value\<close>. A node is told apart by its
  \<open>type\<close>: \<open>text\<close> with its \<open>value\<close>; \<open>element\<close> with \<open>name\<close>, \<open>attributes\<close> and
  \<open>children\<close>; \<open>component\<close> with its \<open>name\<close>; \<open>expression\<close> (a \<open>{...}\<close> of the template)
  with an optional \<open>value\<close> property and its \<open>children\<close>; \<open>frontmatter\<close> with its \<open>value\<close>;
  \<open>style\<close> with \<open>attributes\<close>, \<open>children\<close> and an optional \<open>content\<close>; any other type.
\<close>

datatype attr_kind = Quoted | Empty | OtherKind

datatype attribute = Attribute attr_kind string string

datatype node =
    Text string
  | Element string "attribute list" "node list"
  | Component string
  | Expression "string option" "node list"
  | Frontmatter string
  | Style "attribute list" "node list" "string option"
  | OtherNode

text \<open>
  The root: \<open>rn_frontmatter\<close> is \<open>ast.frontmatter.value\<close> when \<open>ast.frontmatter\<close> exists
  and its \<open>value\<close> is a string; \<open>rn_children\<close> is \<open>ast.children\<close> when present.
\<close>

record root_node =
  rn_frontmatter :: "string option"
  rn_children :: "node list option"

subsection \<open>Character classes of JavaScript regular expressions\<close>

text \<open>\<open>\s\<close> within the Latin-1 range: TAB, LF, VT, FF, CR, space and no-break space.\<close>

definition is_space :: "char \<Rightarrow> bool" where
  "is_space c = ((of_char c :: nat) \<in> {9, 10, 11, 12, 13, 32, 160})"

text \<open>\<open>\w\<close>: \<open>[A-Za-z0-9_]\<close>.\<close>

definition is_word :: "char \<Rightarrow> bool" where
  "is_word c =
     (let n = (of_char c :: nat)
      in (65 \<le> n \<and> n \<le> 90) \<or> (97 \<le> n \<and> n \<le> 122) \<or> (48 \<le> n \<and> n \<le> 57) \<or> n = 95)"

definition is_quote :: "char \<Rightarrow> bool" where
  "is_quote c = (c = CHR 0x22 \<or> c = CHR 0x27)"

definition strip_prefix :: "string \<Rightarrow> string \<Rightarrow> string option" where
  "strip_prefix p s = (if take (length p) s = p then Some (drop (length p) s) else None)"

subsection \<open>extractFrontmatter\<close>

text \<open>
  One attempt of \<open>/(?:const|let|var)\s+(\w+)\s*=\s*["']([^"']+)["']/\<close> at the start of
  \<open>s\<close>: the two groups and the length of the match. Each greedy quantifier is followed
  by an item that cannot start with a character of its own class, so the match at a
  given start is unique and no backtracking changes it.
\<close>

definition match_keyword :: "string \<Rightarrow> string option" where
  "match_keyword s =
     (case strip_prefix ''const'' s of
        Some r \<Rightarrow> Some r
      | None \<Rightarrow> (case strip_prefix ''let'' s of Some r \<Rightarrow> Some r | None \<Rightarrow> strip_prefix ''var'' s))"

definition match_declaration :: "string \<Rightarrow> (string \<times> string \<times> nat) option" where
  "match_declaration s =
     (case match_keyword s of
        None \<Rightarrow> None
      | Some s1 \<Rightarrow>
          if takeWhile is_space s1 = [] then None
          else
            (let s2 = dropWhile is_space s1;
                 name = takeWhile is_word s2
             in if name = [] then None
                else
                  (case dropWhile is_space (dropWhile is_word s2) of
                     [] \<Rightarrow> None
                   | c # s3 \<Rightarrow>
                       if c \<noteq> CHR ''='' then None
                       else
                         (case dropWhile is_space s3 of
                            [] \<Rightarrow> None
                          | q # s4 \<Rightarrow>
                              if \<not> is_quote q then None
                              else
                                (let v = takeWhile (\<lambda>c. \<not> is_quote c) s4
                                 in case dropWhile (\<lambda>c. \<not> is_quote c) s4 of
                                      [] \<Rightarrow> None
                                    | q' # s5 \<Rightarrow>
                                        if v = [] then None
                                        else Some (name, v, length s - length s5))))))"

text \<open>
  \<open>code.matchAll(...)\<close> with the \<open>g\<close> flag: the matches from left to right, the search
  resuming where the previous match ended. The first argument counts the characters
  of the current match still to be passed over.
\<close>

fun matchAll_declarations :: "nat \<Rightarrow> string \<Rightarrow> (string \<times> string) list" where
  "matchAll_declarations skip [] = []"
| "matchAll_declarations (Suc k) (c # cs) = matchAll_declarations k cs"
| "matchAll_declarations 0 (c # cs) =
     (case match_declaration (c # cs) of
        Some (name, v, len) \<Rightarrow> (name, v) # matchAll_declarations (len - 1) cs
      | None \<Rightarrow> matchAll_declarations 0 cs)"

text \<open>
  \<open>vars[match[1]] = match[2]\<close> on a plain object, kept as the list of its own
  properties in creation order: an existing key keeps its place, a new key goes last,
  and the key \<open>__proto__\<close> reaches the inherited setter, which ignores a string.
\<close>

definition obj_assign :: "(string \<times> string) list \<Rightarrow> string \<Rightarrow> string \<Rightarrow> (string \<times> string) list" where
  "obj_assign obj k v =
     (if k = ''__proto__'' then obj
      else if k \<in> set (map fst obj) then map (\<lambda>(k', v'). if k' = k then (k', v) else (k', v')) obj
      else obj @ [(k, v)])"

definition extractFrontmatter :: "root_node \<Rightarrow> (string \<times> string) list" where
  "extractFrontmatter ast =
     (case rn_frontmatter ast of
        None \<Rightarrow> []
      | Some code \<Rightarrow> foldl (\<lambda>vars (name, v). obj_assign vars name v) [] (matchAll_declarations 0 code))"

subsection \<open>nodeToHTML\<close>

definition render_attr :: "attribute \<Rightarrow> string" where
  "render_attr a =
     (case a of
        Attribute Quoted name v \<Rightarrow>
          if name \<noteq> [] \<and> v \<noteq> [] then name @ ''='' @ [CHR 0x22] @ v @ [CHR 0x22] else []
      | Attribute Empty name v \<Rightarrow> if name \<noteq> [] then name else []
      | Attribute OtherKind name v \<Rightarrow> [])"

text \<open>\<open>attributes.map(...).filter(Boolean).join(' ')\<close>\<close>

definition render_attrs :: "attribute list \<Rightarrow> string" where
  "render_attrs attrs = join '' '' (filter (\<lambda>s. s \<noteq> []) (map render_attr attrs))"

definition void_elements :: "string list" where
  "void_elements = [''img'', ''br'', ''hr'', ''input'', ''meta'', ''link'']"

text \<open>\<open>openTag.replace('>', ' />')\<close>: a string pattern replaces its first occurrence only.\<close>

fun replace_first_gt :: "string \<Rightarrow> string" where
  "replace_first_gt [] = []"
| "replace_first_gt (c # cs) = (if c = CHR ''>'' then '' />'' @ cs else c # replace_first_gt cs)"

text \<open>
  \<open>String(node)\<close> on a tree node: the nodes are plain objects, for which the conversion
  yields this text whatever the node holds.
\<close>

definition String_of_object :: string where
  "String_of_object = ''[object Object]''"

definition text_value :: "node \<Rightarrow> string" where
  "text_value child = (case child of Text v \<Rightarrow> v | _ \<Rightarrow> [])"

text \<open>
  \<open>nodeToHTML(node)\<close>; the warning logged for a component node is not recorded, and
  the \<open>indent\<close> argument is never read.
\<close>

fun nodeToHTML :: "node \<Rightarrow> string" where
  "nodeToHTML (Text v) = v"
| "nodeToHTML (Element name attributes children) =
     (let attrs = render_attrs attributes;
          openTag = (if attrs \<noteq> [] then ''<'' @ name @ '' '' @ attrs @ ''>'' else ''<'' @ name @ ''>'')
      in if length children = 0 then
           (if name \<in> set void_elements then replace_first_gt openTag
            else openTag @ ''</'' @ name @ ''>'')
         else openTag @ join [NL] (map nodeToHTML children) @ ''</'' @ name @ ''>'')"
| "nodeToHTML (Component name) = ''<!-- Component: '' @ name @ '' -->''"
| "nodeToHTML (Expression v children) = ''{'' @ String_of_object @ ''}''"
| "nodeToHTML (Frontmatter v) = []"
| "nodeToHTML (Style attributes children direct) =
     (let attrs = render_attrs attributes;
          openTag = (if attrs \<noteq> [] then ''<style '' @ attrs @ ''>'' else ''<style>'');
          content = concat (map text_value children);
          directContent = (case direct of Some c \<Rightarrow> c | None \<Rightarrow> [])
      in openTag @ (if content \<noteq> [] then content else directContent) @ ''</style>'')"
| "nodeToHTML OtherNode = []"

subsection \<open>replaceFrontmatterVars\<close>

text \<open>
  The replacement text of \<open>String.prototype.replace\<close> for a pattern without capture
  groups: \<open>$$\<close> is a dollar sign, \<open>$&\<close> the match, \<open>$`\<close> the text before it, \<open>$'\<close> the
  text after it; any other character, a dollar sign included, stands for itself.
\<close>

fun expand_replacement :: "string \<Rightarrow> string \<Rightarrow> string \<Rightarrow> string \<Rightarrow> string" where
  "expand_replacement [] matched passed remaining = []"
| "expand_replacement [c] matched passed remaining = [c]"
| "expand_replacement (c # d # rest) matched passed remaining =
     (if c = CHR ''$'' \<and> d = CHR ''$'' then CHR ''$'' # expand_replacement rest matched passed remaining
      else if c = CHR ''$'' \<and> d = CHR ''&'' then matched @ expand_replacement rest matched passed remaining
      else if c = CHR ''$'' \<and> d = CHR 0x60 then passed @ expand_replacement rest matched passed remaining
      else if c = CHR ''$'' \<and> d = CHR 0x27 then remaining @ expand_replacement rest matched passed remaining
      else c # expand_replacement (d # rest) matched passed remaining)"

text \<open>
  \<open>result.replace(new RegExp(`\\{${escapedKey}\\}`, 'g'), value)\<close>. After the escaping
  of the key the expression matches the text \<open>{key}\<close> literally; every occurrence from
  left to right is replaced. \<open>passed\<close> is the text already passed, the number counts
  the characters of the current match still to be passed over.
\<close>

fun replace_from :: "string \<Rightarrow> string \<Rightarrow> string \<Rightarrow> nat \<Rightarrow> string \<Rightarrow> string" where
  "replace_from pat tmpl passed skip [] = []"
| "replace_from pat tmpl passed (Suc k) (c # cs) = replace_from pat tmpl (passed @ [c]) k cs"
| "replace_from pat tmpl passed 0 (c # cs) =
     (if take (length pat) (c # cs) = pat then
        expand_replacement tmpl pat passed (drop (length pat) (c # cs))
          @ replace_from pat tmpl (passed @ [c]) (length pat - 1) cs
      else c # replace_from pat tmpl (passed @ [c]) 0 cs)"

definition replace_placeholder :: "string \<Rightarrow> string \<Rightarrow> string \<Rightarrow> string" where
  "replace_placeholder key v html = replace_from (''{'' @ key @ ''}'') v [] 0 html"

text \<open>
  \<open>Object.entries(vars)\<close>: the keys that are array indices first, in ascending numeric
  order, then the other keys in creation order.
\<close>

definition is_digit :: "char \<Rightarrow> bool" where
  "is_digit c = (48 \<le> (of_char c :: nat) \<and> (of_char c :: nat) \<le> 57)"

definition digits_value :: "string \<Rightarrow> nat" where
  "digits_value s = foldl (\<lambda>n c. 10 * n + ((of_char c :: nat) - 48)) 0 s"

definition is_array_index :: "string \<Rightarrow> bool" where
  "is_array_index k =
     (k \<noteq> [] \<and> list_all is_digit k \<and> (k = ''0'' \<or> take 1 k \<noteq> ''0'') \<and> digits_value k < 2 ^ 32 - 1)"

definition object_entries :: "(string \<times> string) list \<Rightarrow> (string \<times> string) list" where
  "object_entries obj =
     sort_key (\<lambda>(k, v). digits_value k) (filter (\<lambda>(k, v). is_array_index k) obj)
       @ filter (\<lambda>(k, v). \<not> is_array_index k) obj"

definition replaceFrontmatterVars :: "string \<Rightarrow> (string \<times> string) list \<Rightarrow> string" where
  "replaceFrontmatterVars html vars =
     foldl (\<lambda>result (key, v). replace_placeholder key v result) html (object_entries vars)"

subsection \<open>render\<close>

text \<open>
  \<open>render(filePath)\<close> after the file has been read and parsed: the children joined by
  newlines, then the placeholders replaced.
\<close>

definition render_ast :: "root_node \<Rightarrow> string" where
  "render_ast ast =
     replaceFrontmatterVars
       (case rn_children ast of None \<Rightarrow> [] | Some children \<Rightarrow> join [NL] (map nodeToHTML children))
       (extractFrontmatter ast)"

text \<open>
  \<open>readFile\<close> and \<open>parse\<close> are collaborators: \<open>read_and_parse path\<close> is their combined
  outcome. An error is logged and rethrown.
\<close>

definition ParserRenderer_render :: "(string \<Rightarrow> js_error + root_node) \<Rightarrow> string \<Rightarrow> js_error + string" where
  "ParserRenderer_render read_and_parse filePath =
     (case read_and_parse filePath of Inl e \<Rightarrow> Inl e | Inr ast \<Rightarrow> Inr (render_ast ast))"

subsection \<open>The earlier renderer (parser-renderer, JavaScript)\<close>

text \<open>
  The JavaScript variant of the renderer kept in the repository differs in
  \<open>nodeToHTML\<close>: attributes are not tested for empty parts, children are joined without
  a separator, an expression node is written as \<open>`{${node.value}}`\<close>, and frontmatter and
  style nodes have no case of their own.
\<close>

definition render_attr_mjs :: "attribute \<Rightarrow> string" where
  "render_attr_mjs a =
     (case a of
        Attribute Quoted name v \<Rightarrow> name @ ''='' @ [CHR 0x22] @ v @ [CHR 0x22]
      | Attribute Empty name v \<Rightarrow> name
      | Attribute OtherKind name v \<Rightarrow> [])"

fun nodeToHTML_mjs :: "node \<Rightarrow> string" where
  "nodeToHTML_mjs (Text v) = v"
| "nodeToHTML_mjs (Element name attributes children) =
     (let attrs = join '' '' (filter (\<lambda>s. s \<noteq> []) (map render_attr_mjs attributes));
          openTag = (if attrs \<noteq> [] then ''<'' @ name @ '' '' @ attrs @ ''>'' else ''<'' @ name @ ''>'')
      in if length children = 0 then
           (if name \<in> set void_elements then replace_first_gt openTag
            else openTag @ ''</'' @ name @ ''>'')
         else openTag @ concat (map nodeToHTML_mjs children) @ ''</'' @ name @ ''>'')"
| "nodeToHTML_mjs (Component name) = ''<!-- Component: '' @ name @ '' -->''"
| "nodeToHTML_mjs (Expression v children) =
     ''{'' @ (case v of Some text \<Rightarrow> text | None \<Rightarrow> ''undefined'') @ ''}''"
| "nodeToHTML_mjs (Frontmatter v) = []"
| "nodeToHTML_mjs (Style attributes children direct) = []"
| "nodeToHTML_mjs OtherNode = []"

definition render_ast_mjs :: "root_node \<Rightarrow> string" where
  "render_ast_mjs ast =
     replaceFrontmatterVars
       (case rn_children ast of None \<Rightarrow> [] | Some children \<Rightarrow> concat (map nodeToHTML_mjs children))
       (extractFrontmatter ast)"

subsection \<open>The Footer component\<close>

text \<open>
  The tree that \<open>parse\<close> returns for the component file whose frontmatter is
  \<open>const year = "2024";\<close> and whose template is \<open><p>{year}</p>\<close>. The root has no
  \<open>frontmatter\<close> property: the frontmatter is its first child, a node of type
  \<open>frontmatter\<close>. The paragraph element holds one expression node for \<open>{year}\<close>, which
  has no \<open>value\<close> property and carries the text \<open>year\<close> as a child text node.
\<close>

definition footer_ast :: root_node where
  "footer_ast =
     \<lparr> rn_frontmatter = None,
       rn_children = Some
         [Frontmatter ([NL] @ ''const year = '' @ [CHR 0x22] @ ''2024'' @ [CHR 0x22] @ '';'' @ [NL]),
          Element ''p'' [] [Expression None [Text ''year'']]] \<rparr>"

section \<open>Pipeline orchestrator (src/index.ts)\<close>

text \<open>
  The closure variables of \<open>astroPrerenderPlugin\<close>: \<open>config_root\<close> is \<open>config?.root\<close>, the
  three managers are \<open>null\<close> (\<open>None\<close>) until \<open>configResolved\<close> has run, and \<open>parserFallback\<close>
  tells whether a fallback \<open>ParserRenderer\<close> exists. The files written and the log lines
  are kept with them.
\<close>

datatype renderer = ContainerRenderer | ParserRenderer

datatype build_log =
    SkippingCached string            \<comment> \<open>info: \<open>Skipping cached: path\<close>\<close>
  | FallingBack string               \<comment> \<open>info: \<open>Falling back to parser for: path\<close>\<close>
  | Minified nat nat                 \<comment> \<open>info: \<open>Minified: n -> m bytes\<close>\<close>
  | WroteHTML string nat             \<comment> \<open>success: \<open>name.html (n chars)\<close>\<close>
  | FailedToProcess string js_error  \<comment> \<open>error: \<open>Failed to process path: message\<close>\<close>

record plugin =
  config_root :: "string option"
  outputDir :: string
  minify :: bool
  cacheManager :: "cache option"
  cssGenerator :: "css_generator option"
  componentRenderer :: "renderer option"
  parserFallback :: bool
  written :: files
  logged :: "build_log list"

text \<open>
  The collaborators of \<open>processComponent\<close>: the hash of a file's content, the two
  renderers (a throw, \<open>null\<close> or an HTML string), the Cheerio-based helpers of
  \<open>src/utils/index.ts\<close>, the minifier, the file system and \<open>node:path\<close>.
\<close>

record build_env =
  getFileHash :: "string \<Rightarrow> js_error + string"
  render_container :: "string \<Rightarrow> js_error + string option"
  render_parser :: "string \<Rightarrow> js_error + string option"
  extract_styles :: "string \<Rightarrow> string list"
  clean_html :: "string \<Rightarrow> string"
  extract_classes :: "string \<Rightarrow> string list"
  minifyHTML :: "string \<Rightarrow> string"
  write_output :: "string \<Rightarrow> string \<Rightarrow> js_error option"
  path_join :: "string \<Rightarrow> string \<Rightarrow> string"
  path_basename :: "string \<Rightarrow> string \<Rightarrow> string"

text \<open>JavaScript truthiness of \<open>html\<close>: neither \<open>null\<close> nor the empty string.\<close>

definition truthy :: "string option \<Rightarrow> bool" where
  "truthy html = (case html of None \<Rightarrow> False | Some s \<Rightarrow> s \<noteq> [])"

definition render :: "build_env \<Rightarrow> renderer \<Rightarrow> string \<Rightarrow> js_error + string option" where
  "render env r componentPath =
     (case r of
        ContainerRenderer \<Rightarrow> render_container env componentPath
      | ParserRenderer \<Rightarrow> render_parser env componentPath)"

text \<open>
  \<open>let html = await componentRenderer.render(componentPath);
  if (!html && parserFallback) { ...; html = await parserFallback.render(componentPath); }\<close>
  with the log lines it writes.
\<close>

definition render_with_fallback ::
  "build_env \<Rightarrow> renderer \<Rightarrow> bool \<Rightarrow> string \<Rightarrow> (js_error + string option) \<times> build_log list" where
  "render_with_fallback env r fallback componentPath =
     (case render env r componentPath of
        Inl e \<Rightarrow> (Inl e, [])
      | Inr html \<Rightarrow>
          if \<not> truthy html \<and> fallback
          then (render_parser env componentPath, [FallingBack componentPath])
          else (Inr html, []))"

text \<open>
  The block guarded by \<open>if (html)\<close>: styles and classes go to the generator, the cleaned
  and possibly minified HTML is written, and only then the cache entry is set. The
  result holds the error thrown, if any, and the state reached.
\<close>

definition process_html ::
  "build_env \<Rightarrow> string \<Rightarrow> string \<Rightarrow> string \<Rightarrow> plugin \<Rightarrow> js_error option \<times> plugin" where
  "process_html env root_dir componentPath html st =
     (let outputPath = path_join env root_dir (outputDir st);
          styles = extract_styles env html;
          st1 = (case cssGenerator st of
                   Some g \<Rightarrow> if length styles > 0 then st\<lparr>cssGenerator := Some (addStyles g styles)\<rparr> else st
                 | None \<Rightarrow> st);
          cleanedHTML = clean_html env html;
          st2 = (case cssGenerator st1 of
                   Some g \<Rightarrow> st1\<lparr>cssGenerator := Some (addClasses g (extract_classes env cleanedHTML))\<rparr>
                 | None \<Rightarrow> st1);
          minified = (if minify st2 then minifyHTML env cleanedHTML else cleanedHTML);
          st3 = (if minify st2
                 then st2\<lparr>logged := logged st2 @ [Minified (length cleanedHTML) (length minified)]\<rparr>
                 else st2);
          componentName = path_basename env componentPath ''.astro'';
          htmlOutputPath = path_join env outputPath (componentName @ ''.html'')
      in case writeFileWithDir (write_output env) htmlOutputPath minified (written st3) of
           (Some e, fs) \<Rightarrow> (Some e, st3)
         | (None, fs) \<Rightarrow>
             (let st4 = st3\<lparr>written := fs\<rparr>;
                  done = WroteHTML componentName (length minified)
              in case cacheManager st4 of
                   None \<Rightarrow> (None, st4\<lparr>logged := logged st4 @ [done]\<rparr>)
                 | Some c \<Rightarrow>
                     (case getFileHash env componentPath of
                        Inl e \<Rightarrow> (Some e, st4)
                      | Inr hash \<Rightarrow>
                          (None, st4\<lparr>cacheManager := Some (cache_set c componentPath hash),
                                     logged := logged st4 @ [done]\<rparr>))))"

text \<open>The \<open>Render component\<close> part of the \<open>try\<close> block.\<close>

definition render_component ::
  "build_env \<Rightarrow> string \<Rightarrow> string \<Rightarrow> plugin \<Rightarrow> js_error option \<times> plugin" where
  "render_component env root_dir componentPath st =
     (case componentRenderer st of
        None \<Rightarrow> (None, st)
      | Some r \<Rightarrow>
          (case render_with_fallback env r (parserFallback st) componentPath of
             (Inl e, logs) \<Rightarrow> (Some e, st\<lparr>logged := logged st @ logs\<rparr>)
           | (Inr html, logs) \<Rightarrow>
               (case (if truthy html then html else None) of
                  None \<Rightarrow> (None, st\<lparr>logged := logged st @ logs\<rparr>)
                | Some h \<Rightarrow> process_html env root_dir componentPath h (st\<lparr>logged := logged st @ logs\<rparr>))))"

text \<open>The whole \<open>try\<close> block: the cache check comes first.\<close>

definition process_body ::
  "build_env \<Rightarrow> string \<Rightarrow> string \<Rightarrow> plugin \<Rightarrow> js_error option \<times> plugin" where
  "process_body env root_dir componentPath st =
     (case cacheManager st of
        None \<Rightarrow> render_component env root_dir componentPath st
      | Some c \<Rightarrow>
          (case getFileHash env componentPath of
             Inl e \<Rightarrow> (Some e, st)
           | Inr hash \<Rightarrow>
               if isCached c componentPath hash
               then (None, st\<lparr>logged := logged st @ [SkippingCached componentPath]\<rparr>)
               else render_component env root_dir componentPath st))"

text \<open>
  \<open>processComponent(componentPath)\<close>: nothing without a root; otherwise the \<open>try\<close> block,
  whose errors the \<open>catch\<close> block logs and swallows.
\<close>

definition processComponent :: "build_env \<Rightarrow> string \<Rightarrow> plugin \<Rightarrow> plugin" where
  "processComponent env componentPath st =
     (case config_root st of
        None \<Rightarrow> st
      | Some root_dir \<Rightarrow>
          (case process_body env root_dir componentPath st of
             (None, st1) \<Rightarrow> st1
           | (Some e, st1) \<Rightarrow> st1\<lparr>logged := logged st1 @ [FailedToProcess componentPath e]\<rparr>))"

text \<open>
  The loop of \<open>processAll\<close> over the component files found:
  \<open>for (const componentPath of componentFiles) { await processComponent(componentPath); }\<close>
\<close>

definition process_each :: "build_env \<Rightarrow> string list \<Rightarrow> plugin \<Rightarrow> plugin" where
  "process_each env componentFiles st = foldl (\<lambda>s componentPath. processComponent env componentPath s) st componentFiles"

text \<open>The cache entry of a path, \<open>None\<close> when there is no cache manager or no entry.\<close>

definition cache_entry :: "plugin \<Rightarrow> string \<Rightarrow> string option" where
  "cache_entry st componentPath = (case cacheManager st of None \<Rightarrow> None | Some c \<Rightarrow> c componentPath)"

text \<open>Whether a rendering attempt failed: a throw, or no HTML from either strategy.\<close>

definition render_failed :: "js_error + string option \<Rightarrow> bool" where
  "render_failed outcome = (case outcome of Inl e \<Rightarrow> True | Inr html \<Rightarrow> \<not> truthy html)"

subsection \<open>A sample project\<close>

text \<open>
  A project with two components: \<open>Footer.astro\<close> parses to the Footer tree, and
  \<open>Broken.astro\<close> makes the parser throw. The HTML helpers are stand-ins that find no
  styles and no classes and leave the HTML as it is.
\<close>

definition sample_sources :: "string \<Rightarrow> js_error + root_node" where
  "sample_sources path =
     (if path = ''/app/src/components/Lazy/Footer.astro'' then Inr footer_ast
      else Inl (ExternalError ''Unable to parse''))"

definition sample_hash :: "string \<Rightarrow> js_error + string" where
  "sample_hash path =
     (if path = ''/app/src/components/Lazy/Footer.astro'' then Inr ''f00''
      else if path = ''/app/src/components/Lazy/Broken.astro'' then Inr ''b0b''
      else Inl (ExternalError ''ENOENT''))"

definition sample_parser :: "string \<Rightarrow> js_error + string option" where
  "sample_parser path =
     (case ParserRenderer_render sample_sources path of Inl e \<Rightarrow> Inl e | Inr html \<Rightarrow> Inr (Some html))"

definition no_container :: "string \<Rightarrow> js_error + string option" where
  "no_container path = Inr None"

definition sample_basename :: "string \<Rightarrow> string \<Rightarrow> string" where
  "sample_basename path ext =
     (if path = ''/app/src/components/Lazy/Footer.astro'' then ''Footer'' else ''Broken'')"

definition sample_join :: "string \<Rightarrow> string \<Rightarrow> string" where
  "sample_join a b = a @ ''/'' @ b"

definition sample_build :: build_env where
  "sample_build =
     \<lparr> getFileHash = sample_hash,
       render_container = no_container,
       render_parser = sample_parser,
       extract_styles = (\<lambda>html. []),
       clean_html = (\<lambda>html. html),
       extract_classes = (\<lambda>html. []),
       minifyHTML = (\<lambda>html. html),
       write_output = (\<lambda>path content. None),
       path_join = sample_join,
       path_basename = sample_basename \<rparr>"

text \<open>
  The plugin after \<open>configResolved\<close> with the default options, with a cache left by an
  earlier run in which \<open>Broken.astro\<close> had the hash \<open>a11\<close>.
\<close>

definition sample_plugin :: plugin where
  "sample_plugin =
     \<lparr> config_root = Some ''/app'', outputDir = ''public/prerendered'', minify = True,
       cacheManager = Some [''/app/src/components/Lazy/Broken.astro'' \<mapsto> ''a11''],
       cssGenerator = Some plugin_generator,
       componentRenderer = Some ParserRenderer, parserFallback = False,
       written = no_files, logged = [] \<rparr>"

section \<open>Properties of the content cache\<close>

text \<open>
  C4. \<open>isCached(path, hash)\<close> is true exactly when the cache holds an entry for \<open>path\<close>
  whose stored value equals \<open>hash\<close>; in particular it is false whenever no entry for
  \<open>path\<close> exists.
\<close>

theorem isCached_iff_entry_equals_hash:
  "isCached c path hash = (\<exists>v. c path = Some v \<and> v = hash)
   \<and> (c path = None \<longrightarrow> \<not> isCached c path hash)"
  by (simp add: isCached_def)

theorem isCached_iff_entry_equals_hash_witness:
  "isCached (Map.empty(''a.astro'' \<mapsto> ''h1'')) ''a.astro'' ''h1''
   \<and> \<not> isCached (Map.empty(''a.astro'' \<mapsto> ''h1'')) ''a.astro'' ''h2''
   \<and> (Map.empty(''a.astro'' \<mapsto> ''h1'')) ''b.astro'' = None
   \<and> \<not> isCached (Map.empty(''a.astro'' \<mapsto> ''h1'')) ''b.astro'' ''h1''"
  using isCached_iff_entry_equals_hash [of "Map.empty(''a.astro'' \<mapsto> ''h1'')" "''a.astro''" "''h1''"]
    isCached_iff_entry_equals_hash [of "Map.empty(''a.astro'' \<mapsto> ''h1'')" "''a.astro''" "''h2''"]
    isCached_iff_entry_equals_hash [of "Map.empty(''a.astro'' \<mapsto> ''h1'')" "''b.astro''" "''h1''"]
  by simp

section \<open>Properties of the loader statistics\<close>

text \<open>
  C10. \<open>getStats\<close> never divides by zero: when \<open>totalLoads\<close> is zero the reported
  \<open>averageLoadTime\<close> is \<open>0\<close>; otherwise it is the finite quotient of \<open>totalLoadTime\<close> by
  \<open>totalLoads\<close>.
\<close>

theorem getStats_average_never_divides_by_zero:
  "(totalLoads s = 0 \<longrightarrow> ls_averageLoadTime (getStats s) = Finite 0)
   \<and> (totalLoads s \<noteq> 0 \<longrightarrow>
        ls_averageLoadTime (getStats s) = Finite (totalLoadTime s / real (totalLoads s)))"
  by (simp add: getStats_def js_div_def)

theorem getStats_average_never_divides_by_zero_witness:
  "ls_averageLoadTime (getStats \<lparr> totalLoads = 0, cacheHits = 0, cacheMisses = 0, errors = 2,
       totalLoadTime = 0, totalBytes = 0 \<rparr>) = Finite 0
   \<and> ls_averageLoadTime (getStats \<lparr> totalLoads = 4, cacheHits = 1, cacheMisses = 3, errors = 0,
       totalLoadTime = 90, totalBytes = 2048 \<rparr>) = Finite (45 / 2)"
  using getStats_average_never_divides_by_zero [of "\<lparr> totalLoads = 0, cacheHits = 0,
      cacheMisses = 0, errors = 2, totalLoadTime = 0, totalBytes = 0 \<rparr>"]
    getStats_average_never_divides_by_zero [of "\<lparr> totalLoads = 4, cacheHits = 1,
      cacheMisses = 3, errors = 0, totalLoadTime = 90, totalBytes = 2048 \<rparr>"]
  by simp

section \<open>Properties of the client loader\<close>

text \<open>
  C1. The source comments \<open>Don't retry on 404\<close>, yet the \<open>throw\<close> for a 404 sits inside
  the \<open>try\<close> whose \<open>catch\<close> swallows every error before the last attempt. With three
  attempts allowed and a server that answers 404 once and 200 afterwards,
  \<open>fetchWithRetry\<close> waits 1000 ms, issues a second request and returns its response.
\<close>

theorem fetchWithRetry_retries_after_404:
  "fetchWithRetry not_found_once default_config ''/prerendered/Footer.html'' 3 fresh_page
     = (Inr footer_response,
        fresh_page\<lparr> fetches := [''/prerendered/Footer.html'', ''/prerendered/Footer.html''],
                    timers := [1000] \<rparr>)"
  by (simp add: fetchWithRetry_def not_found_once_def default_config_def fresh_page_def
      try_block_def catch_block_def ok_def not_found_response_def footer_response_def)

text \<open>
  C8. With HTML caching enabled and an entry for the name in the in-memory cache,
  \<open>load\<close> returns the cached HTML, counts a cache hit, and starts no request: no URL
  is fetched, no link element is appended and no retry timer is set.
\<close>

theorem load_cache_hit_issues_no_request:
  assumes "cacheHTML (config ld)" and "htmlCache ld name = Some html"
  shows "\<exists>ld' pg'. load env name ld pg = (Inr html, ld', pg')
      \<and> cacheHits (stats ld') = Suc (cacheHits (stats ld))
      \<and> fetches pg' = fetches pg \<and> head_links pg' = head_links pg \<and> timers pg' = timers pg
      \<and> network_requests pg' = network_requests pg"
  using assms
  by (simp add: load_def load_from_cache_def performance_now_def network_requests_def Let_def)

theorem load_cache_hit_issues_no_request_witness:
  "cacheHTML (config footer_cached) \<and> htmlCache footer_cached ''Footer'' = Some ''<p>2024</p>''
   \<and> (\<exists>ld' pg'. load not_found_once ''Footer'' footer_cached fresh_page = (Inr ''<p>2024</p>'', ld', pg')
      \<and> cacheHits (stats ld') = Suc (cacheHits (stats footer_cached))
      \<and> fetches pg' = fetches fresh_page \<and> head_links pg' = head_links fresh_page
      \<and> timers pg' = timers fresh_page
      \<and> network_requests pg' = network_requests fresh_page)"
proof -
  have h1: "cacheHTML (config footer_cached)"
    by (simp add: footer_cached_def new_loader_def default_config_def)
  have h2: "htmlCache footer_cached ''Footer'' = Some ''<p>2024</p>''"
    by (simp add: footer_cached_def new_loader_def)
  show ?thesis
    using h1 h2 load_cache_hit_issues_no_request [OF h1 h2, of not_found_once fresh_page]
    by simp
qed

text \<open>
  C9. On the cache-hit path \<open>totalLoads\<close> and \<open>cacheHits\<close> each grow by one and
  \<open>totalBytes\<close> keeps its value; the byte size of the cached fragment is passed to the
  \<open>onLoad\<close> callback only.
\<close>

theorem load_cache_hit_statistics:
  assumes "cacheHTML (config ld)" and "htmlCache ld name = Some html"
  shows "\<exists>ld' pg' d. load env name ld pg = (Inr html, ld', pg')
      \<and> totalLoads (stats ld') = Suc (totalLoads (stats ld))
      \<and> cacheHits (stats ld') = Suc (cacheHits (stats ld))
      \<and> totalBytes (stats ld') = totalBytes (stats ld)
      \<and> calls pg' = calls pg @ [OnLoad name \<lparr>lr_duration = d, lr_bytes = blob_size html,
             lr_fromCache = True, lr_secondaryAssets = None\<rparr>]"
  using assms
  by (simp add: load_def load_from_cache_def performance_now_def Let_def)

theorem load_cache_hit_statistics_witness:
  "cacheHTML (config footer_cached) \<and> htmlCache footer_cached ''Footer'' = Some ''<p>2024</p>''
   \<and> (\<exists>ld' pg' d. load not_found_once ''Footer'' footer_cached fresh_page = (Inr ''<p>2024</p>'', ld', pg')
      \<and> totalLoads (stats ld') = 2 \<and> cacheHits (stats ld') = 1 \<and> totalBytes (stats ld') = 11
      \<and> calls pg' = [OnLoad ''Footer'' \<lparr>lr_duration = d, lr_bytes = 11,
             lr_fromCache = True, lr_secondaryAssets = None\<rparr>])"
proof -
  have h1: "cacheHTML (config footer_cached)"
    by (simp add: footer_cached_def new_loader_def default_config_def)
  have h2: "htmlCache footer_cached ''Footer'' = Some ''<p>2024</p>''"
    by (simp add: footer_cached_def new_loader_def)
  have s: "stats footer_cached = \<lparr> totalLoads = 1, cacheHits = 0, cacheMisses = 1, errors = 0,
                    totalLoadTime = 10, totalBytes = 11 \<rparr>"
    by (simp add: footer_cached_def new_loader_def)
  have b: "blob_size ''<p>2024</p>'' = 11"
    by (simp add: blob_size_def)
  show ?thesis
    using h1 h2 load_cache_hit_statistics [OF h1 h2, of not_found_once fresh_page]
    by (simp add: s b fresh_page_def numeral_2_eq_2)
qed

section \<open>Properties of the stylesheet generator\<close>

lemma set_foldl_set_add: "set (foldl set_add acc xs) = set acc \<union> set xs"
  by (induction xs arbitrary: acc) (auto simp: set_add_def)

text \<open>
  \<open>generate\<close> reads the class array three ways only: its length, the \<open>raw\<close> content
  built from it, and the safelist.
\<close>

lemma generate_classes_cong:
  assumes len: "length cs = length cs'"
    and pp: "\<And>cfg css. postcss_process env cfg (content_raw cs) cs css
                 = postcss_process env cfg (content_raw cs') cs' css"
  shows "generate env (g\<lparr>classes := cs\<rparr>) outputPath fs
       = generate env (g\<lparr>classes := cs'\<rparr>) outputPath fs"
proof -
  have body: "generate_body env (g\<lparr>classes := cs\<rparr>) outputPath fs
      = generate_body env (g\<lparr>classes := cs'\<rparr>) outputPath fs"
    by (simp add: generate_body_def len pp Let_def split: option.split sum.split)
  have e: "(cs = []) = (cs' = [])"
    using len by auto
  show ?thesis
    by (simp add: generate_def body len e Let_def split: prod.split option.split cong: if_cong)
qed

text \<open>
  C7. When the class set and the style-block list are both empty, \<open>generate\<close> writes no
  file and throws nothing: it logs the state line and the warning, and returns.
\<close>

theorem generate_nothing_accumulated_writes_nothing:
  assumes "classes g = []" and "componentStyles g = []"
  shows "generate env g outputPath fs = (None, fs, [StateInfo 0 0, NothingToGenerate])"
  using assms by (simp add: generate_def)

theorem generate_nothing_accumulated_writes_nothing_witness:
  "classes (clear (addClasses plugin_generator [''flex''])) = []
   \<and> componentStyles (clear (addClasses plugin_generator [''flex''])) = []
   \<and> generate rule_table_env (clear (addClasses plugin_generator [''flex'']))
        ''/app/public/prerendered/lazy-components.css'' no_files
      = (None, no_files, [StateInfo 0 0, NothingToGenerate])"
proof -
  have h1: "classes (clear (addClasses plugin_generator [''flex''])) = []"
    by (simp add: clear_def)
  have h2: "componentStyles (clear (addClasses plugin_generator [''flex''])) = []"
    by (simp add: clear_def)
  show ?thesis
    using h1 h2 generate_nothing_accumulated_writes_nothing [OF h1 h2]
    by simp
qed

text \<open>
  Adding classes to the set: the members afterwards, and how many there are. Neither
  depends on the order of the classes added.
\<close>

lemma length_foldl_set_add:
  "length (foldl set_add acc xs) = length acc + card (set xs - set acc)"
proof (induction xs arbitrary: acc)
  case Nil
  then show ?case by simp
next
  case (Cons x xs)
  show ?case
  proof (cases "x \<in> set acc")
    case True
    then have "insert x (set xs) - set acc = set xs - set acc" by auto
    with True Cons.IH [of acc] show ?thesis by (simp add: set_add_def)
  next
    case False
    have eq: "insert x (set xs) - set acc = insert x (set xs - set (acc @ [x]))"
      using False by auto
    have "x \<notin> set xs - set (acc @ [x])" by simp
    then have "card (insert x (set xs - set (acc @ [x]))) = Suc (card (set xs - set (acc @ [x])))"
      by (simp add: card_insert_disjoint)
    with False Cons.IH [of "acc @ [x]"] eq show ?thesis by (simp add: set_add_def)
  qed
qed

text \<open>
  C6. For a fixed generator state (the classes and style blocks accumulated so far),
  adding the same classes in any permuted order gives the same outcome of \<open>generate\<close>:
  the same bytes written to the stylesheet, utility rules included, the same log and
  the same error if any. The class array reaches the compiler in insertion order, but
  the array holds the same classes and has the same length for every order, and the
  utility compiler emits its rules for the set of classes it is allowed.
\<close>

theorem generate_independent_of_insertion_order:
  assumes "mset xs = mset ys"
  shows "generate (env\<lparr>postcss_process := utility_compiler compile\<rparr>) (addClasses g xs) outputPath fs
       = generate (env\<lparr>postcss_process := utility_compiler compile\<rparr>) (addClasses g ys) outputPath fs"
proof -
  let ?a = "foldl set_add (classes g) xs" and ?b = "foldl set_add (classes g) ys"
  let ?env = "env\<lparr>postcss_process := utility_compiler compile\<rparr>"
  have sxy: "set xs = set ys"
    by (rule mset_eq_setD [OF assms])
  have s: "set ?a = set ?b"
    using sxy by (simp add: set_foldl_set_add)
  have len: "length ?a = length ?b"
    using sxy by (simp add: length_foldl_set_add)
  have pp: "\<And>cfg css. postcss_process ?env cfg (content_raw ?a) ?a css
                 = postcss_process ?env cfg (content_raw ?b) ?b css"
    using s by (simp add: utility_compiler_def)
  show ?thesis
    unfolding addClasses_def by (rule generate_classes_cong [OF len pp])
qed

theorem generate_independent_of_insertion_order_witness:
  "mset [''flex'', ''p-4''] = mset [''p-4'', ''flex'']
   \<and> generate rule_table_env (addClasses plugin_generator [''flex'', ''p-4'']) ''out.css'' no_files
      = generate rule_table_env (addClasses plugin_generator [''p-4'', ''flex'']) ''out.css'' no_files
   \<and> fst (snd (generate rule_table_env (addClasses plugin_generator [''p-4'', ''flex''])
                  ''out.css'' no_files)) ''out.css''
      = Some (''.flex{}.p-4{}'' @ tailwind_directives)"
proof -
  have h: "mset [''flex'', ''p-4''] = mset [''p-4'', ''flex'']"
    by simp
  have e: "rule_table_env\<lparr>postcss_process := utility_compiler rule_table_compile\<rparr> = rule_table_env"
    by (simp add: rule_table_env_def)
  have out: "fst (snd (generate rule_table_env (addClasses plugin_generator [''p-4'', ''flex''])
                  ''out.css'' no_files)) ''out.css''
      = Some (''.flex{}.p-4{}'' @ tailwind_directives)"
    by (simp add: generate_def generate_body_def rule_table_env_def utility_compiler_def
        rule_table_compile_def addClasses_def plugin_generator_def new_generator_def set_add_def
        writeFileWithDir_def rule_of_def Let_def)
  show ?thesis
    using h out
      generate_independent_of_insertion_order
        [OF h, where env = rule_table_env and compile = rule_table_compile
           and g = plugin_generator and outputPath = "''out.css''" and fs = no_files]
    by (simp add: e)
qed

section \<open>Properties of the structural renderer\<close>

text \<open>
  The earlier JavaScript renderer fares no better on the Footer component: it reads
  the \<open>value\<close> property of the expression node, which the node does not have.
\<close>

lemma render_ast_mjs_footer: "render_ast_mjs footer_ast = ''<p>{undefined}</p>''"
  by code_simp

text \<open>
  C2. For the Footer component (frontmatter \<open>year = "2024"\<close>, template \<open><p>{year}</p>\<close>)
  \<open>render\<close> does not return \<open><p>2024</p>\<close>. \<open>extractFrontmatter\<close> looks for a \<open>frontmatter\<close>
  property of the root, which the tree does not have, and finds no variable;
  \<open>nodeToHTML\<close> writes the expression node as \<open>`{${String(node)}}`\<close>, the text
  \<open>{[object Object]}\<close>, so no placeholder \<open>{year}\<close> is produced; and the frontmatter child,
  rendered as the empty string, is joined to the paragraph by a newline.
\<close>

theorem render_footer_leaves_object_placeholder:
  "extractFrontmatter footer_ast = []
   \<and> render_ast footer_ast = [NL] @ ''<p>{[object Object]}</p>''
   \<and> ParserRenderer_render sample_sources ''/app/src/components/Lazy/Footer.astro''
       = Inr ([NL] @ ''<p>{[object Object]}</p>'')
   \<and> render_ast footer_ast \<noteq> ''<p>2024</p>''"
  by code_simp

section \<open>Properties of the pipeline orchestrator\<close>

text \<open>
  What \<open>processComponent\<close> for one path leaves alone: the renderer configuration, the
  root, and the cache entries of all other paths.
\<close>

lemma process_html_frame:
  assumes "process_html env root_dir q h st = (err, st')"
  shows "componentRenderer st' = componentRenderer st \<and> parserFallback st' = parserFallback st
       \<and> config_root st' = config_root st
       \<and> (q \<noteq> p \<longrightarrow> cache_entry st' p = cache_entry st p)"
  using assms
  by (auto simp: process_html_def Let_def writeFileWithDir_def cache_entry_def cache_set_def
      split: option.splits sum.splits if_splits prod.splits)

lemma render_component_frame:
  assumes "render_component env root_dir q st = (err, st')"
  shows "componentRenderer st' = componentRenderer st \<and> parserFallback st' = parserFallback st
       \<and> config_root st' = config_root st
       \<and> (q \<noteq> p \<longrightarrow> cache_entry st' p = cache_entry st p)"
proof (cases "componentRenderer st")
  case None
  with assms show ?thesis by (simp add: render_component_def)
next
  case (Some r)
  obtain out logs where rw: "render_with_fallback env r (parserFallback st) q = (out, logs)"
    by (cases "render_with_fallback env r (parserFallback st) q")
  let ?st = "st\<lparr>logged := logged st @ logs\<rparr>"
  have same: "componentRenderer ?st = componentRenderer st" "parserFallback ?st = parserFallback st"
     "config_root ?st = config_root st" "cache_entry ?st p = cache_entry st p"
    by (simp_all add: cache_entry_def)
  show ?thesis
  proof (cases out)
    case (Inl e)
    with assms Some rw same show ?thesis by (auto simp: render_component_def)
  next
    case (Inr html)
    show ?thesis
    proof (cases "truthy html")
      case False
      with assms Some rw Inr same show ?thesis by (auto simp: render_component_def)
    next
      case True
      then obtain h where h: "html = Some h" by (cases html) (auto simp: truthy_def)
      with assms Some rw Inr True have "process_html env root_dir q h ?st = (err, st')"
        by (simp add: render_component_def)
      from process_html_frame [OF this, of p] same show ?thesis by simp
    qed
  qed
qed

lemma render_component_failed:
  assumes "componentRenderer st = Some r"
    and "render_failed (fst (render_with_fallback env r (parserFallback st) p))"
  shows "cacheManager (snd (render_component env root_dir p st)) = cacheManager st"
  using assms
  by (auto simp: render_component_def render_failed_def split: prod.splits sum.splits option.splits)

lemma processComponent_frame:
  "componentRenderer (processComponent env q st) = componentRenderer st
   \<and> parserFallback (processComponent env q st) = parserFallback st
   \<and> config_root (processComponent env q st) = config_root st
   \<and> (q \<noteq> p \<longrightarrow> cache_entry (processComponent env q st) p = cache_entry st p)"
proof (cases "config_root st")
  case None
  then show ?thesis by (simp add: processComponent_def)
next
  case (Some root_dir)
  obtain err st' where b: "process_body env root_dir q st = (err, st')"
    by (cases "process_body env root_dir q st")
  have fr: "componentRenderer st' = componentRenderer st \<and> parserFallback st' = parserFallback st
       \<and> config_root st' = config_root st
       \<and> (q \<noteq> p \<longrightarrow> cache_entry st' p = cache_entry st p)"
    using b render_component_frame [of env root_dir q st err st' p]
    by (auto simp: process_body_def cache_entry_def split: option.splits sum.splits if_splits)
  show ?thesis
    using Some b fr by (cases err) (simp_all add: processComponent_def cache_entry_def)
qed

lemma processComponent_failed:
  assumes "componentRenderer st = Some r"
    and "render_failed (fst (render_with_fallback env r (parserFallback st) p))"
  shows "cacheManager (processComponent env p st) = cacheManager st"
proof (cases "config_root st")
  case None
  then show ?thesis by (simp add: processComponent_def)
next
  case (Some root_dir)
  have rc: "cacheManager (snd (render_component env root_dir p st)) = cacheManager st"
    by (rule render_component_failed [OF assms])
  have "cacheManager (snd (process_body env root_dir p st)) = cacheManager st"
    using rc by (auto simp: process_body_def split: option.splits sum.splits)
  then show ?thesis
    using Some by (auto simp: processComponent_def split: prod.splits option.splits)
qed

text \<open>
  C3. If rendering a component fails (the renderer throws, or the configured
  strategies yield no HTML), the cache entry of its path after the loop over all
  component files is the one it had before: it is never set to the new hash, so the
  cached-check of the next pass does not skip the component.
\<close>

theorem failed_component_keeps_cache_entry:
  assumes "componentRenderer st = Some r"
    and "render_failed (fst (render_with_fallback env r (parserFallback st) p))"
  shows "cache_entry (process_each env componentFiles st) p = cache_entry st p"
  using assms
proof (induction componentFiles arbitrary: st)
  case Nil
  then show ?case by (simp add: process_each_def)
next
  case (Cons q qs)
  let ?st = "processComponent env q st"
  have fr: "componentRenderer ?st = Some r" "parserFallback ?st = parserFallback st"
    using processComponent_frame [of env q st p] Cons.prems(1) by simp_all
  have step: "cache_entry ?st p = cache_entry st p"
  proof (cases "q = p")
    case True
    then show ?thesis
      using processComponent_failed [OF Cons.prems] by (simp add: cache_entry_def)
  next
    case False
    then show ?thesis using processComponent_frame [of env q st p] by simp
  qed
  have "cache_entry (process_each env qs ?st) p = cache_entry ?st p"
    using Cons.IH [of ?st] fr Cons.prems(2) by simp
  then show ?case using step by (simp add: process_each_def)
qed

theorem failed_component_keeps_cache_entry_witness:
  "componentRenderer sample_plugin = Some ParserRenderer
   \<and> render_failed (fst (render_with_fallback sample_build ParserRenderer (parserFallback sample_plugin)
         ''/app/src/components/Lazy/Broken.astro''))
   \<and> cache_entry (process_each sample_build
         [''/app/src/components/Lazy/Footer.astro'', ''/app/src/components/Lazy/Broken.astro'']
         sample_plugin) ''/app/src/components/Lazy/Broken.astro'' = Some ''a11''
   \<and> sample_hash ''/app/src/components/Lazy/Broken.astro'' = Inr ''b0b''"
proof -
  have h1: "componentRenderer sample_plugin = Some ParserRenderer"
    by (simp add: sample_plugin_def)
  have h2: "render_failed (fst (render_with_fallback sample_build ParserRenderer
         (parserFallback sample_plugin) ''/app/src/components/Lazy/Broken.astro''))"
    by (simp add: render_failed_def render_with_fallback_def render_def sample_build_def
        sample_parser_def ParserRenderer_render_def sample_sources_def)
  have before: "cache_entry sample_plugin ''/app/src/components/Lazy/Broken.astro'' = Some ''a11''"
    by (simp add: cache_entry_def sample_plugin_def)
  have hash: "sample_hash ''/app/src/components/Lazy/Broken.astro'' = Inr ''b0b''"
    by (simp add: sample_hash_def)
  show ?thesis
    using h1 h2 before hash
      failed_component_keeps_cache_entry [OF h1 h2,
        of "[''/app/src/components/Lazy/Footer.astro'', ''/app/src/components/Lazy/Broken.astro'']"]
    by simp
qed

end
